theory Spec2Isabelle
  imports Main
begin

unbundle bit_operations_syntax

section \<open>Event dispatch layer (treecheckableitemevent.go)\<close>

text \<open>
  A handler is a Go closure called with the published item.  Its effect is modelled as a
  transformer of an outside world \<open>'w\<close>; a nil handler is \<open>None\<close>.  The world does not
  contain the event itself, so a handler that attaches or detaches while it runs is outside
  this model.
\<close>

type_synonym ('a, 'w) TreeCheckableItemEventHandler = "'a \<Rightarrow> 'w \<Rightarrow> 'w"

record ('a, 'w) treeCheckableItemEventHandlerInfo =
  handler :: "('a, 'w) TreeCheckableItemEventHandler option"
  once :: bool

text \<open>The struct \<open>TreeCheckableItemEvent\<close> has the single field \<open>handlers\<close>, a slice.\<close>

type_synonym ('a, 'w) TreeCheckableItemEvent = "('a, 'w) treeCheckableItemEventHandlerInfo list"

text \<open>What a Go call gives back: a value, a returned error, or a runtime panic.\<close>

datatype error = InvalidItem | InvalidParent | NativeOperationFailed

datatype 'a result = Ok 'a | Fail error | Panic

text \<open>The search loop of \<open>Attach\<close>: the index of the first slot whose handler is nil.\<close>

fun attachLoop :: "nat \<Rightarrow> ('a, 'w) TreeCheckableItemEvent \<Rightarrow> nat option" where
  "attachLoop i [] = None"
| "attachLoop i (h # hs) = (if handler h = None then Some i else attachLoop (Suc i) hs)"

definition Attach ::
  "('a, 'w) TreeCheckableItemEventHandler option \<Rightarrow> ('a, 'w) TreeCheckableItemEvent
    \<Rightarrow> int \<times> ('a, 'w) TreeCheckableItemEvent" where
  "Attach f e =
     (let handlerInfo = \<lparr>handler = f, once = False\<rparr>
      in case attachLoop 0 e of
           Some i \<Rightarrow> (int i, e[i := handlerInfo])
         | None \<Rightarrow> (int (length (e @ [handlerInfo])) - 1, e @ [handlerInfo]))"

text \<open>\<open>e.handlers[handle].handler = nil\<close>; an index outside the slice panics.\<close>

definition Detach ::
  "int \<Rightarrow> ('a, 'w) TreeCheckableItemEvent \<Rightarrow> ('a, 'w) TreeCheckableItemEvent result" where
  "Detach handle e =
     (if 0 \<le> handle \<and> handle < int (length e)
      then Ok (e[nat handle := (e ! nat handle)\<lparr>handler := None\<rparr>])
      else Panic)"

definition Once ::
  "('a, 'w) TreeCheckableItemEventHandler option \<Rightarrow> ('a, 'w) TreeCheckableItemEvent
    \<Rightarrow> ('a, 'w) TreeCheckableItemEvent" where
  "Once f e = (case Attach f e of (i, e') \<Rightarrow> e'[nat i := (e' ! nat i)\<lparr>once := True\<rparr>])"

text \<open>
  The loop of \<open>Publish\<close>.  \<open>range\<close> walks the slots of the slice as it was when the loop
  began (the third argument, with the index of its head as second argument); the event
  itself is changed by the \<open>Detach\<close> of a once-handler.  Index \<open>i\<close> is in range there, so
  that \<open>Detach\<close> cannot panic.
\<close>

fun PublishLoop ::
  "'a \<Rightarrow> nat \<Rightarrow> ('a, 'w) TreeCheckableItemEvent \<Rightarrow> ('a, 'w) TreeCheckableItemEvent \<Rightarrow> 'w
    \<Rightarrow> ('a, 'w) TreeCheckableItemEvent \<times> 'w" where
  "PublishLoop item i [] e w = (e, w)"
| "PublishLoop item i (h # hs) e w =
     (case handler h of
        None \<Rightarrow> PublishLoop item (Suc i) hs e w
      | Some f \<Rightarrow>
          (let w' = f item w;
               e' = (if once h then e[i := (e ! i)\<lparr>handler := None\<rparr>] else e)
           in PublishLoop item (Suc i) hs e' w'))"

definition Publish ::
  "'a \<Rightarrow> ('a, 'w) TreeCheckableItemEvent \<Rightarrow> 'w \<Rightarrow> ('a, 'w) TreeCheckableItemEvent \<times> 'w" where
  "Publish item e w = PublishLoop item 0 e e w"

text \<open>What a publish pass leaves in a slot: a live once-handler is gone, all else stays.\<close>

definition afterPublish ::
  "('a, 'w) treeCheckableItemEventHandlerInfo \<Rightarrow> ('a, 'w) treeCheckableItemEventHandlerInfo" where
  "afterPublish h = (if handler h \<noteq> None \<and> once h then h\<lparr>handler := None\<rparr> else h)"


section \<open>Tree model contract\<close>

text \<open>
  A \<open>TreeItem\<close> is an object of the model, compared by reference.  Here it is a node
  carrying its identity \<open>ident\<close> and, for \<open>ChildCount\<close> and \<open>ChildAt\<close>, the list of its
  children.  Two items are the same object when their \<open>ident\<close> is the same; a nil item is
  \<open>None\<close>.  The remaining methods of an item (\<open>Parent\<close>, \<open>Checked\<close>, \<open>SetChecked\<close>) read
  and write the fields \<open>Parent\<close>, \<open>checkable\<close> and \<open>itemChecked\<close> of the state below.
\<close>

datatype tree = Node (ident: nat) (kids: "tree list")

text \<open>\<open>TreeModel\<close>: \<open>RootCount\<close> and \<open>RootAt\<close> are the list \<open>roots\<close>.\<close>

record model =
  roots :: "tree list"
  LazyPopulation :: bool

section \<open>Native control surface\<close>

text \<open>
  The tree-view control of the operating system is not part of the repository.  It is
  modelled as a store of native items under freshly allocated non-zero handles, answering
  the messages the engine sends as the Win32 documentation describes them: an insert
  fails (returns 0) unless the parent is the root or a live item; deleting an item
  deletes the items below it; deleting with handle 0 or \<open>TVI_ROOT\<close> deletes everything;
  setting or selecting an item that is not live fails.  The notifications the control
  would send back while it processes a message are not modelled.
\<close>

record nativeItem =
  hParent :: nat
  hInsertAfter :: nat
  stateImage :: nat

record native =
  allocated :: nat
  nitems :: "(nat \<times> nativeItem) list"
  caret :: nat

definition TVI_ROOT :: nat where "TVI_ROOT = 0xFFFF0000"
definition TVI_FIRST :: nat where "TVI_FIRST = 0xFFFF0001"
definition TVE_COLLAPSE :: nat where "TVE_COLLAPSE = 1"
definition TVE_EXPAND :: nat where "TVE_EXPAND = 2"
definition TVHT_ONITEMSTATEICON :: nat where "TVHT_ONITEMSTATEICON = 0x40"
definition TVIS_STATEIMAGEMASK :: nat where "TVIS_STATEIMAGEMASK = 0xF000"

definition live :: "native \<Rightarrow> nat \<Rightarrow> bool" where
  "live n h = (map_of (nitems n) h \<noteq> None)"

definition TVM_INSERTITEM :: "nat \<Rightarrow> nat \<Rightarrow> nat \<Rightarrow> native \<Rightarrow> nat \<times> native" where
  "TVM_INSERTITEM hPar hAfter img n =
     (if hPar = TVI_ROOT \<or> hPar = 0 \<or> live n hPar
      then (let h = Suc (allocated n)
            in (h, n\<lparr>allocated := h,
                     nitems := nitems n @
                       [(h, \<lparr>hParent = hPar, hInsertAfter = hAfter, stateImage = img\<rparr>)]\<rparr>))
      else (0, n))"

text \<open>The items that go with a deleted one: a child is always allocated after its parent.\<close>

fun sweep :: "nat list \<Rightarrow> (nat \<times> nativeItem) list \<Rightarrow> (nat \<times> nativeItem) list" where
  "sweep doomed [] = []"
| "sweep doomed ((h, v) # rest) =
     (if h \<in> set doomed \<or> hParent v \<in> set doomed
      then sweep (h # doomed) rest
      else (h, v) # sweep doomed rest)"

definition TVM_DELETEITEM :: "nat \<Rightarrow> native \<Rightarrow> nat \<times> native" where
  "TVM_DELETEITEM h n =
     (if h = 0 \<or> h = TVI_ROOT then (1, n\<lparr>nitems := []\<rparr>)
      else if live n h then (1, n\<lparr>nitems := sweep [h] (nitems n)\<rparr>)
      else (0, n))"

definition TVM_SETITEM :: "nat \<Rightarrow> nat option \<Rightarrow> native \<Rightarrow> nat \<times> native" where
  "TVM_SETITEM h img n =
     (if live n h
      then (1, case img of
                 None \<Rightarrow> n
               | Some x \<Rightarrow>
                   n\<lparr>nitems := map (\<lambda>(k, v). if k = h then (k, v\<lparr>stateImage := x\<rparr>) else (k, v))
                                  (nitems n)\<rparr>)
      else (0, n))"

definition TVM_GETITEMSTATE :: "nat \<Rightarrow> native \<Rightarrow> nat" where
  "TVM_GETITEMSTATE h n =
     (case map_of (nitems n) h of None \<Rightarrow> 0 | Some v \<Rightarrow> push_bit 12 (stateImage v))"

definition TVM_SELECTITEM :: "nat \<Rightarrow> native \<Rightarrow> nat \<times> native" where
  "TVM_SELECTITEM h n = (if h = 0 \<or> live n h then (1, n\<lparr>caret := h\<rparr>) else (0, n))"

section \<open>The tree view (treeview.go)\<close>

text \<open>
  \<open>child2Handle\<close> is a Go map from child items to handles.  It is kept as an association
  list keyed by the item's identity, in order of first insertion; Go leaves the order in
  which \<open>range\<close> visits a map open, and this list fixes one.
\<close>

record treeViewItemInfo =
  handle :: nat
  child2Handle :: "(tree \<times> nat) list"

datatype published =
    ExpandedChanged "tree option"
  | CurrentItemChanged
  | ItemActivated
  | ItemChecked tree

text \<open>
  The state: the fields of the \<open>TreeView\<close> struct that the engine uses (\<open>model\<close> to
  \<open>currItem\<close>; both registries are allocated maps), the item objects' own state (\<open>Parent\<close>,
  \<open>checkable\<close> for an item that is a \<open>TreeCheckableItem\<close>, \<open>itemChecked\<close> for what its
  \<open>Checked()\<close> returns), the native control, and the calls made to the view's publishers,
  oldest first.  Image lists and the suspend bracket are left out.
\<close>

record tv =
  model :: "model option"
  lazyPopulation :: bool
  item2Info :: "nat \<rightharpoonup> treeViewItemInfo"
  handle2Item :: "nat \<rightharpoonup> tree"
  currItem :: "tree option"
  Parent :: "nat \<Rightarrow> tree option"
  checkable :: "nat \<Rightarrow> bool"
  itemChecked :: "nat \<Rightarrow> bool"
  native :: native
  publishedEvents :: "published list"

definition c2hSet :: "tree \<Rightarrow> nat \<Rightarrow> (tree \<times> nat) list \<Rightarrow> (tree \<times> nat) list" where
  "c2hSet item h m =
     (if ident item \<in> set (map (ident \<circ> fst) m)
      then map (\<lambda>(k, v). if ident k = ident item then (k, h) else (k, v)) m
      else m @ [(item, h)])"

definition c2hDelete :: "tree \<Rightarrow> (tree \<times> nat) list \<Rightarrow> (tree \<times> nat) list" where
  "c2hDelete item m = filter (\<lambda>(k, v). ident k \<noteq> ident item) m"

definition handleForItem :: "tree option \<Rightarrow> tv \<Rightarrow> nat result" where
  "handleForItem item s =
     (case item of
        Some it \<Rightarrow>
          (case item2Info s (ident it) of
             None \<Rightarrow> Fail InvalidItem
           | Some info \<Rightarrow> Ok (handle info))
      | None \<Rightarrow> Fail InvalidItem)"

definition clearItems :: "tv \<Rightarrow> unit result \<times> tv" where
  "clearItems s =
     (case TVM_DELETEITEM 0 (native s) of
        (r, n') \<Rightarrow>
          if r = 0 then (Fail NativeOperationFailed, s\<lparr>native := n'\<rparr>)
          else (Ok (), s\<lparr>native := n', item2Info := Map.empty, handle2Item := Map.empty\<rparr>))"

text \<open>The state index written into \<open>tvi.State\<close>: 2 checked, 1 unchecked, none otherwise.\<close>

definition insertState :: "tree \<Rightarrow> tv \<Rightarrow> nat" where
  "insertState item s =
     (if checkable s (ident item) then (if itemChecked s (ident item) then 2 else 1) else 0)"

text \<open>
  \<open>info.child2Handle[child] = handle\<close> in \<open>insertChildren\<close>, where \<open>info\<close> is the parent's
  registry entry; through a nil \<open>info\<close> it panics.
\<close>

definition setChild2Handle :: "nat \<Rightarrow> tree \<Rightarrow> nat \<Rightarrow> tv \<Rightarrow> unit result \<times> tv" where
  "setChild2Handle parentId child h s =
     (case item2Info s parentId of
        None \<Rightarrow> (Panic, s)
      | Some info \<Rightarrow>
          (Ok (), s\<lparr>item2Info :=
                     (item2Info s)(parentId \<mapsto>
                        info\<lparr>child2Handle := c2hSet child h (child2Handle info)\<rparr>)\<rparr>))"

text \<open>
  \<open>insertItemAfter\<close>, and the loop of \<open>insertChildren\<close> over the children of the item
  \<open>parentId\<close>: it runs from the last child to the first, so the head of the list is
  inserted after its tail.  Every insert of the loop is \<open>insertItem\<close>, that is, at
  \<open>TVI_FIRST\<close>.
\<close>

fun insertItemAfter :: "tree \<Rightarrow> nat \<Rightarrow> tv \<Rightarrow> nat result \<times> tv"
  and insertChildrenLoop :: "tree list \<Rightarrow> nat \<Rightarrow> tv \<Rightarrow> unit result \<times> tv" where
  "insertItemAfter (Node i ks) hAfter s =
     (case (case Parent s i of
              None \<Rightarrow> Ok TVI_ROOT
            | Some parent \<Rightarrow>
                (case item2Info s (ident parent) of
                   None \<Rightarrow> Fail InvalidParent
                 | Some info \<Rightarrow> Ok (handle info))) of
        Fail e \<Rightarrow> (Fail e, s)
      | Panic \<Rightarrow> (Panic, s)
      | Ok hPar \<Rightarrow>
          (case TVM_INSERTITEM hPar hAfter (insertState (Node i ks) s) (native s) of
             (hItem, n') \<Rightarrow>
               if hItem = 0 then (Fail NativeOperationFailed, s\<lparr>native := n'\<rparr>)
               else
                 (let s1 = s\<lparr>native := n',
                             item2Info :=
                               (item2Info s)(i \<mapsto> \<lparr>handle = hItem, child2Handle = []\<rparr>),
                             handle2Item := (handle2Item s)(hItem \<mapsto> Node i ks)\<rparr>
                  in if \<not> lazyPopulation s1
                     then (case insertChildrenLoop ks i s1 of
                             (Ok u, s2) \<Rightarrow> (Ok hItem, s2)
                           | (Fail e, s2) \<Rightarrow> (Fail e, s2)
                           | (Panic, s2) \<Rightarrow> (Panic, s2))
                     else (Ok hItem, s1))))"
| "insertChildrenLoop [] parentId s = (Ok (), s)"
| "insertChildrenLoop (child # earlier) parentId s =
     (case insertChildrenLoop earlier parentId s of
        (Ok u, s1) \<Rightarrow>
          (case insertItemAfter child TVI_FIRST s1 of
             (Ok h, s2) \<Rightarrow> setChild2Handle parentId child h s2
           | (Fail e, s2) \<Rightarrow> (Fail e, s2)
           | (Panic, s2) \<Rightarrow> (Panic, s2))
      | (r, s1) \<Rightarrow> (r, s1))"

definition insertItem :: "tree \<Rightarrow> tv \<Rightarrow> nat result \<times> tv" where
  "insertItem item s = insertItemAfter item TVI_FIRST s"

definition insertChildren :: "tree \<Rightarrow> tv \<Rightarrow> unit result \<times> tv" where
  "insertChildren parent s = insertChildrenLoop (kids parent) (ident parent) s"

definition updateItem :: "tree \<Rightarrow> tv \<Rightarrow> unit result \<times> tv" where
  "updateItem item s =
     (case item2Info s (ident item) of
        None \<Rightarrow> (Panic, s)
      | Some info \<Rightarrow>
          (case TVM_SETITEM (handle info) None (native s) of
             (r, n') \<Rightarrow>
               if r = 0 then (Fail NativeOperationFailed, s\<lparr>native := n'\<rparr>)
               else (Ok (), s\<lparr>native := n'\<rparr>)))"

text \<open>\<open>delete(parentInfo.child2Handle, item)\<close>, when the parent of the item has an entry.\<close>

definition unlinkFromParent :: "tree \<Rightarrow> tv \<Rightarrow> tv" where
  "unlinkFromParent item s =
     (case Parent s (ident item) of
        None \<Rightarrow> s
      | Some parent \<Rightarrow>
          (case item2Info s (ident parent) of
             None \<Rightarrow> s
           | Some parentInfo \<Rightarrow>
               s\<lparr>item2Info :=
                    (item2Info s)(ident parent \<mapsto>
                       parentInfo\<lparr>child2Handle := c2hDelete item (child2Handle parentInfo)\<rparr>)\<rparr>))"

text \<open>
  \<open>range\<close> does not produce an entry that was deleted from the map before the loop came
  to it.
\<close>

definition stillInRange :: "nat \<Rightarrow> tree \<Rightarrow> tv \<Rightarrow> bool" where
  "stillInRange parentId item s =
     (case item2Info s parentId of
        None \<Rightarrow> True
      | Some info \<Rightarrow> ident item \<in> set (map (ident \<circ> fst) (child2Handle info)))"

text \<open>
  \<open>removeItem\<close> and \<open>removeDescendants\<close> call each other along the realized-children maps
  of the registry, not along the model, so nothing in their arguments bounds the depth of
  the recursion.  The first argument bounds it: \<open>None\<close> is a recursion deeper than that.
  \<open>removeDescendants\<close> reads \<open>child2Handle\<close> through the parent's registry entry before
  anything else, and panics when there is no entry.
\<close>

fun removeItem :: "nat \<Rightarrow> tree \<Rightarrow> tv \<Rightarrow> (unit result \<times> tv) option"
  and removeDescendants :: "nat \<Rightarrow> tree \<Rightarrow> tv \<Rightarrow> (unit result \<times> tv) option"
  and removeDescendantsLoop :: "nat \<Rightarrow> tree list \<Rightarrow> nat \<Rightarrow> tv \<Rightarrow> (unit result \<times> tv) option"
  where
  "removeItem 0 item s = None"
| "removeItem (Suc depth) item s =
     (case removeDescendants depth item s of
        None \<Rightarrow> None
      | Some (Ok u, s1) \<Rightarrow>
          (case item2Info s1 (ident item) of
             None \<Rightarrow> Some (Fail InvalidItem, s1)
           | Some info \<Rightarrow>
               (case TVM_DELETEITEM (handle info) (native s1) of
                  (r, n') \<Rightarrow>
                    if r = 0 then Some (Fail NativeOperationFailed, s1\<lparr>native := n'\<rparr>)
                    else
                      (let s2 = unlinkFromParent item (s1\<lparr>native := n'\<rparr>)
                       in Some (Ok (),
                                s2\<lparr>item2Info := (item2Info s2)(ident item := None),
                                   handle2Item := (handle2Item s2)(handle info := None)\<rparr>))))
      | Some (r, s1) \<Rightarrow> Some (r, s1))"
| "removeDescendants depth parent s =
     (case item2Info s (ident parent) of
        None \<Rightarrow> Some (Panic, s)
      | Some info \<Rightarrow> removeDescendantsLoop depth (map fst (child2Handle info)) (ident parent) s)"
| "removeDescendantsLoop depth [] parentId s = Some (Ok (), s)"
| "removeDescendantsLoop depth (item # rest) parentId s =
     (if stillInRange parentId item s
      then (case removeItem depth item s of
              None \<Rightarrow> None
            | Some (Ok u, s1) \<Rightarrow> removeDescendantsLoop depth rest parentId s1
            | Some (r, s1) \<Rightarrow> Some (r, s1))
      else removeDescendantsLoop depth rest parentId s)"

text \<open>
  The first loop of \<open>ensureItemAndAncestorsInserted\<close> climbs \<open>Parent\<close> until it meets a
  realized item; nothing bounds the climb in a model whose parent references form a
  cycle, so not returning is the value \<open>None\<close>.
\<close>

partial_function (option) climb :: "tv \<Rightarrow> tree \<Rightarrow> tree list \<Rightarrow> tree list result option" where
  "climb s item hierarchy =
     (if item2Info s (ident item) = None
      then (case Parent s (ident item) of
              Some parent \<Rightarrow> climb s parent (hierarchy @ [parent])
            | None \<Rightarrow> Some (Fail InvalidItem))
      else Some (Ok hierarchy))"

text \<open>The second loop, from the last element of \<open>hierarchy\<close> to the first.\<close>

fun insertHierarchy :: "tree list \<Rightarrow> tv \<Rightarrow> unit result \<times> tv" where
  "insertHierarchy [] s = (Ok (), s)"
| "insertHierarchy (item # earlier) s =
     (case insertHierarchy earlier s of
        (Ok u, s1) \<Rightarrow> insertChildren item s1
      | (r, s1) \<Rightarrow> (r, s1))"

definition ensureItemAndAncestorsInserted ::
  "tree option \<Rightarrow> tv \<Rightarrow> (unit result \<times> tv) option" where
  "ensureItemAndAncestorsInserted item s =
     (case item of
        None \<Rightarrow> Some (Fail InvalidItem, s)
      | Some it \<Rightarrow>
          (case climb s it [] of
             None \<Rightarrow> None
           | Some (Ok hierarchy) \<Rightarrow> Some (insertHierarchy hierarchy s)
           | Some (Fail e) \<Rightarrow> Some (Fail e, s)
           | Some Panic \<Rightarrow> Some (Panic, s)))"

text \<open>\<open>item == tv.currItem\<close> compares references: both nil, or the same object.\<close>

definition sameItem :: "tree option \<Rightarrow> tree option \<Rightarrow> bool" where
  "sameItem a b = (map_option ident a = map_option ident b)"

definition SetCurrentItem :: "tree option \<Rightarrow> tv \<Rightarrow> (unit result \<times> tv) option" where
  "SetCurrentItem item s =
     (if sameItem item (currItem s) then Some (Ok (), s)
      else
        (case (if item \<noteq> None then ensureItemAndAncestorsInserted item s else Some (Ok (), s)) of
           None \<Rightarrow> None
         | Some (Ok u, s1) \<Rightarrow>
             (case handleForItem item s1 of
                Ok h \<Rightarrow>
                  (case TVM_SELECTITEM h (native s1) of
                     (r, n') \<Rightarrow>
                       if r = 0 then Some (Fail NativeOperationFailed, s1\<lparr>native := n'\<rparr>)
                       else Some (Ok (), s1\<lparr>native := n', currItem := item\<rparr>))
              | Fail e \<Rightarrow> Some (Fail e, s1)
              | Panic \<Rightarrow> Some (Panic, s1))
         | Some (r, s1) \<Rightarrow> Some (r, s1)))"

definition insertRoots_body :: "tree \<Rightarrow> tv \<Rightarrow> unit result \<times> tv" where
  "insertRoots_body root s =
     (case insertItem root s of
        (Ok h, s1) \<Rightarrow> (Ok (), s1)
      | (Fail e, s1) \<Rightarrow> (Fail e, s1)
      | (Panic, s1) \<Rightarrow> (Panic, s1))"

text \<open>\<open>insertRoots\<close> runs from the last root to the first.\<close>

fun insertRootsLoop :: "tree list \<Rightarrow> tv \<Rightarrow> unit result \<times> tv" where
  "insertRootsLoop [] s = (Ok (), s)"
| "insertRootsLoop (root # earlier) s =
     (case insertRootsLoop earlier s of
        (Ok u, s1) \<Rightarrow> insertRoots_body root s1
      | (r, s1) \<Rightarrow> (r, s1))"

definition insertRoots :: "tv \<Rightarrow> unit result \<times> tv" where
  "insertRoots s =
     (case model s of
        None \<Rightarrow> (Panic, s)
      | Some m \<Rightarrow> insertRootsLoop (roots m) s)"

definition resetItems :: "tv \<Rightarrow> unit result \<times> tv" where
  "resetItems s =
     (case clearItems s of
        (Ok u, s1) \<Rightarrow> (if model s1 = None then (Ok (), s1) else insertRoots s1)
      | (r, s1) \<Rightarrow> (r, s1))"

text \<open>
  \<open>SetModel\<close>: the subscriptions to the model's events are the handlers \<open>onItemsReset\<close> to
  \<open>onItemChecked\<close> below; what remains is the assignment of \<open>model\<close> and \<open>lazyPopulation\<close>
  and the full reset.
\<close>

definition SetModel :: "model option \<Rightarrow> tv \<Rightarrow> unit result \<times> tv" where
  "SetModel m s =
     resetItems (s\<lparr>model := m,
                   lazyPopulation :=
                     (case m of None \<Rightarrow> lazyPopulation s | Some m' \<Rightarrow> LazyPopulation m')\<rparr>)"

text \<open>\<open>Checked\<close> reads the native state of the item, \<open>SetChecked\<close> writes it.\<close>

definition Checked :: "tree option \<Rightarrow> tv \<Rightarrow> bool" where
  "Checked item s =
     (case item of
        None \<Rightarrow> False
      | Some it \<Rightarrow>
          (case item2Info s (ident it) of
             None \<Rightarrow> False
           | Some info \<Rightarrow>
               drop_bit 12 (TVM_GETITEMSTATE (handle info) (native s) AND TVIS_STATEIMAGEMASK)
                 = 2))"

definition SetChecked :: "tree option \<Rightarrow> bool \<Rightarrow> tv \<Rightarrow> unit result \<times> tv" where
  "SetChecked item c s =
     (case item of
        None \<Rightarrow> (Fail InvalidItem, s)
      | Some it \<Rightarrow>
          (case item2Info s (ident it) of
             None \<Rightarrow> (Fail InvalidItem, s)
           | Some info \<Rightarrow>
               (case TVM_SETITEM (handle info) (Some (if c then 2 else 1)) (native s) of
                  (r, n') \<Rightarrow>
                    if r = 0 then (Fail NativeOperationFailed, s\<lparr>native := n'\<rparr>)
                    else (Ok (), s\<lparr>native := n'\<rparr>))))"

text \<open>The item's own \<open>SetChecked\<close>, called when the item has that method.\<close>

definition itemSetChecked :: "tree \<Rightarrow> bool \<Rightarrow> tv \<Rightarrow> tv" where
  "itemSetChecked item c s =
     (if checkable s (ident item) then s\<lparr>itemChecked := (itemChecked s)(ident item := c)\<rparr> else s)"

fun applyCheckStateRecursive :: "tree \<Rightarrow> tv \<Rightarrow> tv"
  and applyCheckStateLoop :: "tree list \<Rightarrow> tv \<Rightarrow> tv" where
  "applyCheckStateRecursive (Node i ks) s =
     applyCheckStateLoop ks
       (if checkable s i then snd (SetChecked (Some (Node i ks)) (itemChecked s i) s) else s)"
| "applyCheckStateLoop [] s = s"
| "applyCheckStateLoop (child # rest) s =
     applyCheckStateLoop rest
       (if item2Info s (ident child) \<noteq> None then applyCheckStateRecursive child s else s)"

fun setChildrenChecked :: "tree \<Rightarrow> bool \<Rightarrow> tv \<Rightarrow> tv"
  and setChildrenCheckedLoop :: "tree list \<Rightarrow> bool \<Rightarrow> tv \<Rightarrow> tv" where
  "setChildrenChecked (Node i ks) c s = setChildrenCheckedLoop ks c s"
| "setChildrenCheckedLoop [] c s = s"
| "setChildrenCheckedLoop (child # rest) c s =
     setChildrenCheckedLoop rest c
       (case SetChecked (Some child) c (itemSetChecked child c s) of
          (Ok u, s1) \<Rightarrow> setChildrenChecked child c s1
        | (r, s1) \<Rightarrow> s1)"

section \<open>Handlers of the model's events (\<open>SetModel\<close>)\<close>

text \<open>
  A handler returns nothing: an error that it meets ends it and is dropped, a panic is
  not caught.  The state is the one reached when the handler ended.
\<close>

definition dropError :: "'a result \<times> tv \<Rightarrow> unit result \<times> tv" where
  "dropError p = (case p of (Panic, s) \<Rightarrow> (Panic, s) | (r, s) \<Rightarrow> (Ok (), s))"

definition onItemsReset :: "nat \<Rightarrow> tree option \<Rightarrow> tv \<Rightarrow> (unit result \<times> tv) option" where
  "onItemsReset depth parent s =
     (case parent of
        None \<Rightarrow> Some (dropError (resetItems s))
      | Some p \<Rightarrow>
          if item2Info s (ident p) \<noteq> None
          then (case removeDescendants depth p s of
                  None \<Rightarrow> None
                | Some (Ok u, s1) \<Rightarrow> Some (dropError (insertChildren p s1))
                | Some (r, s1) \<Rightarrow> Some (dropError (r, s1)))
          else Some (Ok (), s))"

definition onItemChanged :: "tree option \<Rightarrow> tv \<Rightarrow> unit result \<times> tv" where
  "onItemChanged item s =
     (case item of
        None \<Rightarrow> (Ok (), s)
      | Some it \<Rightarrow>
          if item2Info s (ident it) = None then (Ok (), s) else dropError (updateItem it s))"

text \<open>
  The loop of the item-inserted handler, for \<open>i\<close> from \<open>n - 1\<close> down to 0 over the
  children \<open>ks\<close> of the parent; \<open>hInsertAfter\<close> starts as the zero handle.  The registry
  entry of the child at \<open>i - 1\<close> is read through its pointer, which panics when nil.
\<close>

fun insertAfterLoop :: "nat \<Rightarrow> tree list \<Rightarrow> tree \<Rightarrow> nat \<Rightarrow> tv \<Rightarrow> nat result" where
  "insertAfterLoop 0 ks item hAfter s = Ok hAfter"
| "insertAfterLoop (Suc i) ks item hAfter s =
     (if ident (ks ! i) = ident item
      then (if i > 0
            then (case item2Info s (ident (ks ! (i - 1))) of
                    None \<Rightarrow> Panic
                  | Some info \<Rightarrow> insertAfterLoop i ks item (handle info) s)
            else insertAfterLoop i ks item TVI_FIRST s)
      else insertAfterLoop i ks item hAfter s)"

definition onItemInserted :: "tree \<Rightarrow> tv \<Rightarrow> unit result \<times> tv" where
  "onItemInserted item s =
     (case Parent s (ident item) of
        None \<Rightarrow> (Panic, s)
      | Some parent \<Rightarrow>
          (case insertAfterLoop (length (kids parent)) (kids parent) item 0 s of
             Ok hAfter \<Rightarrow> dropError (insertItemAfter item hAfter s)
           | Fail e \<Rightarrow> (Ok (), s)
           | Panic \<Rightarrow> (Panic, s)))"

definition onItemRemoved :: "nat \<Rightarrow> tree \<Rightarrow> tv \<Rightarrow> (unit result \<times> tv) option" where
  "onItemRemoved depth item s = map_option dropError (removeItem depth item s)"

definition publish :: "published \<Rightarrow> tv \<Rightarrow> tv" where
  "publish ev s = s\<lparr>publishedEvents := publishedEvents s @ [ev]\<rparr>"

definition onItemChecked :: "tree \<Rightarrow> tv \<Rightarrow> unit result \<times> tv" where
  "onItemChecked item s =
     (case SetChecked (Some item) (itemChecked s (ident item)) s of
        (Ok u, s1) \<Rightarrow> (Ok (), publish (ItemChecked item) s1)
      | (r, s1) \<Rightarrow> dropError (r, s1))"

section \<open>Notifications of the native control (\<open>WndProc\<close>)\<close>

text \<open>
  The \<open>WM_NOTIFY\<close> cases of \<open>WndProc\<close> that touch the registries, the model or the
  publishers.  A notification carries what the code reads from it: the action and the
  item handle of \<open>NMTREEVIEW\<close>, and for a click the flags and the item handle that the hit
  test at the cursor gave.
\<close>

datatype notification =
    TVN_ITEMEXPANDING nat nat
  | TVN_ITEMEXPANDED nat nat
  | NM_DBLCLK
  | TVN_SELCHANGED nat
  | NM_CLICK nat nat

definition itemExpanding :: "nat \<Rightarrow> nat \<Rightarrow> tv \<Rightarrow> unit result \<times> tv" where
  "itemExpanding action hItem s =
     (let item = handle2Item s hItem
      in if action = TVE_EXPAND \<and> lazyPopulation s
         then (case item of
                 None \<Rightarrow> (Panic, s)
               | Some it \<Rightarrow>
                   (case item2Info s (ident it) of
                      None \<Rightarrow> (Panic, s)
                    | Some info \<Rightarrow>
                        if length (child2Handle info) = 0
                        then (case insertChildren it s of
                                (Panic, s1) \<Rightarrow> (Panic, s1)
                              | (r, s1) \<Rightarrow> (Ok (), applyCheckStateRecursive it s1))
                        else (Ok (), s)))
         else (Ok (), s))"

definition itemExpanded :: "nat \<Rightarrow> nat \<Rightarrow> tv \<Rightarrow> unit result \<times> tv" where
  "itemExpanded action hItem s =
     (let item = handle2Item s hItem
      in if action = TVE_COLLAPSE then (Ok (), publish (ExpandedChanged item) s)
         else if action = TVE_EXPAND
         then (case item of
                 None \<Rightarrow> (Panic, publish (ExpandedChanged item) s)
               | Some it \<Rightarrow>
                   (Ok (), applyCheckStateRecursive it (publish (ExpandedChanged item) s)))
         else (Ok (), s))"

text \<open>
  The click on a checkbox.  \<open>item.(TreeCheckableItem)\<close> in the call of \<open>Publish\<close> panics
  for an item that is not one.
\<close>

definition click :: "nat \<Rightarrow> nat \<Rightarrow> tv \<Rightarrow> unit result \<times> tv" where
  "click flags hItem s =
     (if flags AND TVHT_ONITEMSTATEICON \<noteq> 0
      then (case handle2Item s hItem of
              Some item \<Rightarrow>
                (let currentChecked = Checked (Some item) s;
                     newChecked = (\<not> currentChecked);
                     s1 = itemSetChecked item newChecked s;
                     s2 = setChildrenChecked item newChecked s1
                 in if checkable s2 (ident item)
                    then (Ok (), publish (ItemChecked item) s2)
                    else (Panic, s2))
            | None \<Rightarrow> (Ok (), s))
      else (Ok (), s))"

fun WndProc :: "notification \<Rightarrow> tv \<Rightarrow> unit result \<times> tv" where
  "WndProc (TVN_ITEMEXPANDING action hItem) s = itemExpanding action hItem s"
| "WndProc (TVN_ITEMEXPANDED action hItem) s = itemExpanded action hItem s"
| "WndProc NM_DBLCLK s = (Ok (), publish ItemActivated s)"
| "WndProc (TVN_SELCHANGED hItem) s =
     (Ok (), publish CurrentItemChanged (s\<lparr>currItem := handle2Item s hItem\<rparr>))"
| "WndProc (NM_CLICK flags hItem) s = click flags hItem s"

section \<open>Notions used in the properties\<close>

text \<open>The identities of the items strictly below an item in the model.\<close>

fun descendants :: "tree \<Rightarrow> nat list"
  and descendantsLoop :: "tree list \<Rightarrow> nat list" where
  "descendants (Node i ks) = descendantsLoop ks"
| "descendantsLoop [] = []"
| "descendantsLoop (child # rest) = ident child # descendants child @ descendantsLoop rest"

text \<open>
  An item whose native state can be set: it has a registry entry and the handle of the
  entry is a live native item.
\<close>

definition settable :: "tv \<Rightarrow> tree \<Rightarrow> bool" where
  "settable s item =
     (case item2Info s (ident item) of
        None \<Rightarrow> False
      | Some info \<Rightarrow> live (native s) (handle info))"

text \<open>
  The identities that check propagation reaches from an item: each child, and what is
  reached from a child that is settable.
\<close>

fun propagated :: "tv \<Rightarrow> tree \<Rightarrow> nat list"
  and propagatedLoop :: "tv \<Rightarrow> tree list \<Rightarrow> nat list" where
  "propagated s (Node i ks) = propagatedLoop s ks"
| "propagatedLoop s [] = []"
| "propagatedLoop s (child # rest) =
     ident child # (if settable s child then propagated s child else []) @ propagatedLoop s rest"

text \<open>Every item strictly below the given one is settable.\<close>

fun realizedBelow :: "tv \<Rightarrow> tree \<Rightarrow> bool"
  and realizedBelowLoop :: "tv \<Rightarrow> tree list \<Rightarrow> bool" where
  "realizedBelow s (Node i ks) = realizedBelowLoop s ks"
| "realizedBelowLoop s [] = True"
| "realizedBelowLoop s (child # rest) =
     (settable s child \<and> realizedBelow s child \<and> realizedBelowLoop s rest)"

text \<open>The identities of the children in an item's realized-children map.\<close>

definition realizedChildren :: "treeViewItemInfo \<Rightarrow> nat list" where
  "realizedChildren info = map (ident \<circ> fst) (child2Handle info)"

text \<open>
  The registry without the values of the handles: which items have an entry, and the
  children each entry holds.
\<close>

definition shape :: "tv \<Rightarrow> nat \<Rightarrow> nat list option" where
  "shape s i = map_option realizedChildren (item2Info s i)"

section \<open>Sample inputs\<close>

text \<open>
  A tree view that was just created, and the model of the check propagation example:
  root R with children A and B, A with child A1; every item is checkable and unchecked.
\<close>

definition created :: tv where
  "created =
     \<lparr>model = None, lazyPopulation = False, item2Info = Map.empty, handle2Item = Map.empty,
      currItem = None, Parent = (\<lambda>i. None), checkable = (\<lambda>i. True),
      itemChecked = (\<lambda>i. False),
      native = \<lparr>allocated = 0, nitems = [], caret = 0\<rparr>, publishedEvents = []\<rparr>"

definition itemA1 :: tree where "itemA1 = Node 3 []"
definition itemA :: tree where "itemA = Node 2 [itemA1]"
definition itemB :: tree where "itemB = Node 4 []"
definition itemR :: tree where "itemR = Node 1 [itemA, itemB]"

definition family :: "nat \<Rightarrow> tree option" where
  "family i = (if i = 2 \<or> i = 4 then Some itemR else if i = 3 then Some itemA else None)"

text \<open>The view after \<open>SetModel\<close> with that model, lazily populated or not.\<close>

definition attached :: "bool \<Rightarrow> tv" where
  "attached lazy =
     snd (SetModel (Some \<lparr>roots = [itemR], LazyPopulation = lazy\<rparr>) (created\<lparr>Parent := family\<rparr>))"

text \<open>Two handlers that log the published item, and two events built from them.\<close>

definition logItem :: "(nat, nat list) TreeCheckableItemEventHandler" where
  "logItem item w = w @ [item]"

definition logTwice :: "(nat, nat list) TreeCheckableItemEventHandler" where
  "logTwice item w = w @ [item, item]"

definition slotsWithHole :: "(nat, nat list) TreeCheckableItemEvent" where
  "slotsWithHole =
     [\<lparr>handler = Some logItem, once = False\<rparr>,
      \<lparr>handler = None, once = False\<rparr>,
      \<lparr>handler = Some logTwice, once = True\<rparr>]"

definition slotsFull :: "(nat, nat list) TreeCheckableItemEvent" where
  "slotsFull =
     [\<lparr>handler = Some logItem, once = False\<rparr>,
      \<lparr>handler = Some logTwice, once = True\<rparr>]"

section \<open>Properties of the event dispatch layer\<close>

lemma attachLoop_None: "attachLoop k e = None \<longleftrightarrow> (\<forall>h \<in> set e. handler h \<noteq> None)"
  by (induction e arbitrary: k) auto

lemma attachLoop_first:
  "i < length e \<Longrightarrow> handler (e ! i) = None \<Longrightarrow> \<forall>j<i. handler (e ! j) \<noteq> None
    \<Longrightarrow> attachLoop k e = Some (k + i)"
proof (induction e arbitrary: k i)
  case Nil
  then show ?case by simp
next
  case (Cons h hs)
  show ?case
  proof (cases i)
    case 0
    with Cons.prems show ?thesis by simp
  next
    case (Suc i')
    with Cons.prems have "handler h \<noteq> None" by auto
    moreover have "attachLoop (Suc k) hs = Some (Suc k + i')"
      using Cons.prems Suc by (intro Cons.IH) auto
    ultimately show ?thesis using Suc by simp
  qed
qed

lemma PublishLoop_eq:
  "drop i e = hs \<Longrightarrow>
   PublishLoop item i hs e w =
     (take i e @ map afterPublish hs, fold (\<lambda>f. f item) (List.map_filter handler hs) w)"
proof (induction hs arbitrary: i e w)
  case Nil
  then show ?case by (simp add: List.map_filter_simps)
next
  case (Cons h hs)
  from Cons.prems have i: "i < length e" and h: "e ! i = h" and d: "drop (Suc i) e = hs"
  proof -
    from Cons.prems show "i < length e" by (cases "i < length e") auto
    then show "e ! i = h" using Cons.prems by (simp add: hd_drop_conv_nth [symmetric])
    show "drop (Suc i) e = hs" using Cons.prems by (simp add: drop_Suc tl_drop [symmetric])
  qed
  show ?case
  proof (cases "handler h")
    case None
    then have "afterPublish h = h" by (simp add: afterPublish_def)
    then show ?thesis
      using None Cons.IH [OF d] i h
      by (simp add: List.map_filter_simps take_Suc_conv_app_nth)
  next
    case (Some f)
    let ?e' = "if once h then e[i := (e ! i)\<lparr>handler := None\<rparr>] else e"
    have d': "drop (Suc i) ?e' = hs" using d by simp
    have t': "take (Suc i) ?e' = take i e @ [afterPublish h]"
      using i h Some by (simp add: take_Suc_conv_app_nth afterPublish_def)
    show ?thesis
      using Some Cons.IH [OF d', of "f item w"] t'
      by (simp add: List.map_filter_simps Let_def del: take_Suc_conv_app_nth)
  qed
qed

lemma Publish_eq:
  "Publish item e w = (map afterPublish e, fold (\<lambda>f. f item) (List.map_filter handler e) w)"
  using PublishLoop_eq [of 0 e e item w] by (simp add: Publish_def)

lemma live_afterPublish:
  "List.map_filter handler (map afterPublish e) =
   List.map_filter (\<lambda>h. if once h then None else handler h) e"
  by (induction e) (auto simp: List.map_filter_simps afterPublish_def)


lemma Attach_reuse:
  "i < length e \<Longrightarrow> handler (e ! i) = None \<Longrightarrow> \<forall>j<i. handler (e ! j) \<noteq> None
    \<Longrightarrow> Attach f e = (int i, e[i := \<lparr>handler = f, once = False\<rparr>])"
  using attachLoop_first [of i e 0] by (simp add: Attach_def)

lemma Attach_append:
  "\<forall>h \<in> set e. handler h \<noteq> None
    \<Longrightarrow> Attach f e = (int (length e), e @ [\<lparr>handler = f, once = False\<rparr>])"
  using attachLoop_None [of 0 e] by (simp add: Attach_def)

lemma Attach_cases:
  "(\<exists>i<length e. handler (e ! i) = None \<and> Attach f e = (int i, e[i := \<lparr>handler = f, once = False\<rparr>]))
   \<or> ((\<forall>h \<in> set e. handler h \<noteq> None) \<and> Attach f e = (int (length e), e @ [\<lparr>handler = f, once = False\<rparr>]))"
proof (cases "\<forall>h \<in> set e. handler h \<noteq> None")
  case True
  then show ?thesis using Attach_append by blast
next
  case False
  then have ex: "\<exists>i. i < length e \<and> handler (e ! i) = None" by (metis in_set_conv_nth)
  define i where "i = (LEAST i. i < length e \<and> handler (e ! i) = None)"
  have "i < length e \<and> handler (e ! i) = None"
    unfolding i_def using ex by (rule LeastI_ex)
  moreover have "\<forall>j<i. handler (e ! j) \<noteq> None"
  proof (intro allI impI)
    fix j assume "j < i"
    then have "\<not> (j < length e \<and> handler (e ! j) = None)"
      unfolding i_def by (rule not_less_Least)
    moreover have "j < length e" using \<open>j < i\<close> \<open>i < length e \<and> handler (e ! i) = None\<close> by simp
    ultimately show "handler (e ! j) \<noteq> None" by simp
  qed
  ultimately show ?thesis using Attach_reuse by blast
qed

lemma Attach_keeps_live:
  assumes "k < length e" "handler (e ! k) \<noteq> None"
  shows "snd (Attach f e) ! k = e ! k"
  using Attach_cases [of e f] assms by (auto simp: nth_append nth_list_update)

lemma Detach_other:
  assumes "k < length e" "j \<noteq> int k" "Detach j e = Ok e'"
  shows "e' ! k = e ! k \<and> length e' = length e"
  using assms by (auto simp: Detach_def nth_list_update split: if_splits)

lemma Detach_valid:
  assumes "0 \<le> j" "j < int (length e)"
  shows "\<exists>e'. Detach j e = Ok e' \<and> handler (e' ! nat j) = None"
  using assms by (simp add: Detach_def)

lemma Once_slot:
  "Once f e = (snd (Attach f e))[nat (fst (Attach f e)) := \<lparr>handler = f, once = True\<rparr>]"
  using Attach_cases [of e f] by (auto simp: Once_def nth_append)

lemma Once_in_range: "nat (fst (Attach f e)) < length (Once f e)"
  using Attach_cases [of e f] by (auto simp: Once_def)

lemma Once_detached:
  "handler (fst (Publish item (Once f e) w) ! nat (fst (Attach f e))) = None"
  using Once_in_range [of f e] by (simp add: Publish_eq Once_slot afterPublish_def)

text \<open>
  C7.  \<open>Attach\<close> stores the handler in the first slot whose handler is nil and returns
  that index; when no slot is nil it appends a slot and returns its index.  A slot that
  holds a handler is left as it is by \<open>Attach\<close> and by the \<open>Detach\<close> of any other
  index, and the slice never shrinks, so a handle that was issued stays valid; \<open>Detach\<close> of
  a valid handle empties that slot.  \<open>Publish\<close> calls the non-nil handlers in slot order.
  A handler attached with \<open>Once\<close> sits in the slot \<open>Attach\<close> gave it with its flag set, its
  slot is nil after the publish pass that called it, and a later pass calls only the
  handlers that are not flagged.
\<close>

theorem event_slots:
  "(\<forall>i. i < length e \<and> handler (e ! i) = None \<and> (\<forall>j<i. handler (e ! j) \<noteq> None)
        \<longrightarrow> Attach f e = (int i, e[i := \<lparr>handler = f, once = False\<rparr>]))
   \<and> ((\<forall>h \<in> set e. handler h \<noteq> None)
        \<longrightarrow> Attach f e = (int (length e), e @ [\<lparr>handler = f, once = False\<rparr>]))
   \<and> (\<forall>k. k < length e \<and> handler (e ! k) \<noteq> None \<longrightarrow> snd (Attach f e) ! k = e ! k)
   \<and> (\<forall>k j e'. k < length e \<and> j \<noteq> int k \<and> Detach j e = Ok e'
        \<longrightarrow> e' ! k = e ! k \<and> length e' = length e)
   \<and> (\<forall>j. 0 \<le> j \<and> j < int (length e)
        \<longrightarrow> (\<exists>e'. Detach j e = Ok e' \<and> handler (e' ! nat j) = None))
   \<and> Publish item e w = (map afterPublish e, fold (\<lambda>h. h item) (List.map_filter handler e) w)
   \<and> Once f e = (snd (Attach f e))[nat (fst (Attach f e)) := \<lparr>handler = f, once = True\<rparr>]
   \<and> handler (fst (Publish item (Once f e) w) ! nat (fst (Attach f e))) = None
   \<and> List.map_filter handler (fst (Publish item e w))
        = List.map_filter (\<lambda>h. if once h then None else handler h) e"
proof (intro conjI allI impI)
  fix i
  assume "i < length e \<and> handler (e ! i) = None \<and> (\<forall>j<i. handler (e ! j) \<noteq> None)"
  then show "Attach f e = (int i, e[i := \<lparr>handler = f, once = False\<rparr>])"
    using Attach_reuse by blast
next
  assume "\<forall>h \<in> set e. handler h \<noteq> None"
  then show "Attach f e = (int (length e), e @ [\<lparr>handler = f, once = False\<rparr>])"
    by (rule Attach_append)
next
  fix k
  assume "k < length e \<and> handler (e ! k) \<noteq> None"
  then show "snd (Attach f e) ! k = e ! k"
    using Attach_keeps_live by blast
next
  fix k j e'
  assume a: "k < length e \<and> j \<noteq> int k \<and> Detach j e = Ok e'"
  then show "e' ! k = e ! k" using Detach_other by blast
  from a show "length e' = length e" using Detach_other by blast
next
  fix j :: int
  assume "0 \<le> j \<and> j < int (length e)"
  then show "\<exists>e'. Detach j e = Ok e' \<and> handler (e' ! nat j) = None"
    using Detach_valid by blast
next
  show "Publish item e w
          = (map afterPublish e, fold (\<lambda>h. h item) (List.map_filter handler e) w)"
    by (rule Publish_eq)
next
  show "Once f e = (snd (Attach f e))[nat (fst (Attach f e)) := \<lparr>handler = f, once = True\<rparr>]"
    by (rule Once_slot)
next
  show "handler (fst (Publish item (Once f e) w) ! nat (fst (Attach f e))) = None"
    by (rule Once_detached)
next
  show "List.map_filter handler (fst (Publish item e w))
          = List.map_filter (\<lambda>h. if once h then None else handler h) e"
    by (simp add: Publish_eq live_afterPublish)
qed

theorem event_slots_witness:
  "Attach (Some logItem) slotsWithHole
     = (1, [\<lparr>handler = Some logItem, once = False\<rparr>,
            \<lparr>handler = Some logItem, once = False\<rparr>,
            \<lparr>handler = Some logTwice, once = True\<rparr>])
   \<and> Attach (Some logItem) slotsFull
     = (2, [\<lparr>handler = Some logItem, once = False\<rparr>,
            \<lparr>handler = Some logTwice, once = True\<rparr>,
            \<lparr>handler = Some logItem, once = False\<rparr>])
   \<and> snd (Attach (Some logItem) slotsWithHole) ! 2 = \<lparr>handler = Some logTwice, once = True\<rparr>
   \<and> (\<exists>e'. Detach 0 slotsWithHole = Ok e' \<and> handler (e' ! 0) = None
          \<and> e' ! 2 = \<lparr>handler = Some logTwice, once = True\<rparr> \<and> length e' = 3)
   \<and> Publish 7 slotsFull []
     = ([\<lparr>handler = Some logItem, once = False\<rparr>, \<lparr>handler = None, once = True\<rparr>],
        [7, 7, 7])
   \<and> snd (Publish 7 (fst (Publish 7 slotsFull [])) []) = [7]"
proof -
  note hole = event_slots [of slotsWithHole "Some logItem" 7 "[]"]
  note full = event_slots [of slotsFull "Some logItem" 7 "[]"]
  note again = event_slots [of "map afterPublish slotsFull" "Some logItem" 7 "[]"]
  have a: "Attach (Some logItem) slotsWithHole
             = (int 1, slotsWithHole[1 := \<lparr>handler = Some logItem, once = False\<rparr>])"
    by (rule hole [THEN conjunct1, rule_format]) (simp add: slotsWithHole_def)
  have b: "Attach (Some logItem) slotsFull
             = (int (length slotsFull), slotsFull @ [\<lparr>handler = Some logItem, once = False\<rparr>])"
    by (rule full [THEN conjunct2, THEN conjunct1, rule_format]) (auto simp: slotsFull_def)
  have c: "snd (Attach (Some logItem) slotsWithHole) ! 2 = slotsWithHole ! 2"
    by (rule hole [THEN conjunct2, THEN conjunct2, THEN conjunct1, rule_format])
       (simp add: slotsWithHole_def)
  obtain e' where d: "Detach 0 slotsWithHole = Ok e' \<and> handler (e' ! nat 0) = None"
    using hole [THEN conjunct2, THEN conjunct2, THEN conjunct2, THEN conjunct2, THEN conjunct1,
                rule_format, of 0]
    by (auto simp: slotsWithHole_def)
  have d': "e' ! 2 = slotsWithHole ! 2 \<and> length e' = length slotsWithHole"
    by (rule hole [THEN conjunct2, THEN conjunct2, THEN conjunct2, THEN conjunct1, rule_format,
                   of 2 0 e'])
       (use d in \<open>simp add: slotsWithHole_def\<close>)
  have p: "Publish 7 slotsFull []
             = (map afterPublish slotsFull,
                fold (\<lambda>h. h 7) (List.map_filter handler slotsFull) [])"
    by (rule full [THEN conjunct2, THEN conjunct2, THEN conjunct2, THEN conjunct2, THEN conjunct2,
                   THEN conjunct1])
  have q: "Publish 7 (map afterPublish slotsFull) []
             = (map afterPublish (map afterPublish slotsFull),
                fold (\<lambda>h. h 7) (List.map_filter handler (map afterPublish slotsFull)) [])"
    by (rule again [THEN conjunct2, THEN conjunct2, THEN conjunct2, THEN conjunct2, THEN conjunct2,
                    THEN conjunct1])
  have a': "Attach (Some logItem) slotsWithHole
     = (1, [\<lparr>handler = Some logItem, once = False\<rparr>,
            \<lparr>handler = Some logItem, once = False\<rparr>,
            \<lparr>handler = Some logTwice, once = True\<rparr>])"
    using a by (simp add: slotsWithHole_def)
  have b': "Attach (Some logItem) slotsFull
     = (2, [\<lparr>handler = Some logItem, once = False\<rparr>,
            \<lparr>handler = Some logTwice, once = True\<rparr>,
            \<lparr>handler = Some logItem, once = False\<rparr>])"
    using b by (simp add: slotsFull_def)
  have c': "snd (Attach (Some logItem) slotsWithHole) ! 2 = \<lparr>handler = Some logTwice, once = True\<rparr>"
    using c by (simp add: slotsWithHole_def)
  have dd: "\<exists>e'. Detach 0 slotsWithHole = Ok e' \<and> handler (e' ! 0) = None
          \<and> e' ! 2 = \<lparr>handler = Some logTwice, once = True\<rparr> \<and> length e' = 3"
    using d d' by (simp add: slotsWithHole_def)
  have p': "Publish 7 slotsFull []
     = ([\<lparr>handler = Some logItem, once = False\<rparr>, \<lparr>handler = None, once = True\<rparr>],
        [7, 7, 7])"
    using p by (simp add: slotsFull_def afterPublish_def List.map_filter_simps
        logItem_def logTwice_def)
  have q': "snd (Publish 7 (fst (Publish 7 slotsFull [])) []) = [7]"
    using q p' by (simp add: slotsFull_def afterPublish_def List.map_filter_simps logItem_def)
  show ?thesis
    using a' b' c' dd p' q' by blast
qed

end
